theory Spec2Isabelle
  imports Main
begin

section \<open>The event emitter of \<^verbatim>\<open>event_emitter.py\<close>\<close>

subsection \<open>Exceptions, listeners and observable effects\<close>

text \<open>
  An exception is a value. \<open>AttributeError n\<close> is what Python raises when the attribute
  \<open>n\<close> is looked up on an object that has none of that name; \<open>Raised m\<close> is any exception
  that the body of a listener raises; \<open>StrictModeViolation e i\<close> is the error of a strict
  synchronous emission, which names the event \<open>e\<close> and, by its identity \<open>i\<close>, the
  asynchronous listener it met (the \<^verbatim>\<open>RuntimeError\<close> of the docstring of \<^verbatim>\<open>emit_sync\<close>).
\<close>

datatype exn = AttributeError string | Raised string | StrictModeViolation string nat

text \<open>
  A listener is a Python callable. \<open>ident\<close> stands for the identity of the function object,
  \<open>iscoroutinefunction\<close> is the answer of \<^verbatim>\<open>asyncio.iscoroutinefunction\<close>, and \<open>body\<close> is what
  running the callable to its end on an argument bundle gives: the exception it raises or
  the value it returns. The argument bundle (\<^verbatim>\<open>*args, **kwargs\<close>) is a value of type \<open>'a\<close>.
\<close>

datatype ('a, 'v) listener =
  Listener (ident: nat) (iscoroutinefunction: bool) (body: "'a \<Rightarrow> exn + 'v")

text \<open>
  What an emission does to the outside world, in order: a listener called directly, a
  coroutine listener called and awaited (the one place where the caller is suspended), a
  warning issued about a listener that was skipped.
\<close>

datatype ('a, 'v) effect =
  Called "('a, 'v) listener" 'a
| Awaited "('a, 'v) listener" 'a
| Warned "('a, 'v) listener"

text \<open>Whether an effect suspends the caller, and whether it is the await of a coroutine.\<close>

fun is_suspension :: "('a, 'v) effect \<Rightarrow> bool" where
  "is_suspension (Awaited l args) = True"
| "is_suspension (Called l args) = False"
| "is_suspension (Warned l) = False"

fun awaits_coroutine :: "('a, 'v) effect \<Rightarrow> bool" where
  "awaits_coroutine (Awaited l args) = iscoroutinefunction l"
| "awaits_coroutine (Called l args) = True"
| "awaits_coroutine (Warned l) = True"

subsection \<open>The emitter object\<close>

text \<open>
  \<^verbatim>\<open>__init__\<close> assigns two instance attributes, \<^verbatim>\<open>strict\<close> and \<^verbatim>\<open>listeners\<close>; the dictionary
  \<^verbatim>\<open>Dict[str, List]\<close> is a map from event names to listener lists.
\<close>

record ('a, 'v) EventEmitter =
  strict :: bool
  listeners :: "string \<rightharpoonup> ('a, 'v) listener list"

text \<open>The values an attribute of an emitter can hold.\<close>

datatype ('a, 'v) pyval =
  PBool bool
| PDict "string \<rightharpoonup> ('a, 'v) listener list"
| PMethod string

text \<open>
  Attribute lookup \<^verbatim>\<open>self.name\<close>. The instance has the two attributes that \<^verbatim>\<open>__init__\<close>
  assigns, the class has its three methods, and no other name is ever assigned by the
  source (the attributes inherited from \<^verbatim>\<open>object\<close> are left out); every other name raises
  \<^verbatim>\<open>AttributeError\<close>.
\<close>

definition getattr :: "('a, 'v) EventEmitter \<Rightarrow> string \<Rightarrow> exn + ('a, 'v) pyval" where
  "getattr self name =
     (if name = ''strict'' then Inr (PBool (strict self))
      else if name = ''listeners'' then Inr (PDict (listeners self))
      else if name \<in> set [''listen'', ''emit_async'', ''emit_sync''] then Inr (PMethod name)
      else Inl (AttributeError name))"

text \<open>
  \<^verbatim>\<open>def __init__(self, strict: bool = True)\<close>: the argument is \<open>None\<close> when the caller omits
  it. The body assigns the constant \<^verbatim>\<open>True\<close> to \<^verbatim>\<open>self.strict\<close> and the empty dictionary to
  \<^verbatim>\<open>self.listeners\<close>; the parameter is bound and not read.
\<close>

definition EventEmitter_init :: "bool option \<Rightarrow> ('a, 'v) EventEmitter" where
  "EventEmitter_init strict_arg =
     (let strict_param = (case strict_arg of None \<Rightarrow> True | Some b \<Rightarrow> b)
      in \<lparr>strict = True, listeners = Map.empty\<rparr>)"

subsection \<open>Registration\<close>

text \<open>
  The inner function \<^verbatim>\<open>decorator(func)\<close> of \<^verbatim>\<open>listen\<close>. \<^verbatim>\<open>self.listeners.get(event)\<close> is \<open>None\<close>
  or a list, and the walrus test is true exactly for a non-empty list: then the listener
  is appended, otherwise the entry is set to the one-element list. The function returns
  \<^verbatim>\<open>func\<close>; the mutated emitter is returned beside it.
\<close>

definition decorator ::
  "string \<Rightarrow> ('a, 'v) listener \<Rightarrow> ('a, 'v) EventEmitter
     \<Rightarrow> exn + (('a, 'v) listener \<times> ('a, 'v) EventEmitter)" where
  "decorator event func self =
     (case getattr self ''listeners'' of
        Inl e \<Rightarrow> Inl e
      | Inr (PDict d) \<Rightarrow>
          (case d event of
             Some lsrns \<Rightarrow>
               if lsrns \<noteq> [] then Inr (func, self\<lparr>listeners := d(event \<mapsto> lsrns @ [func])\<rparr>)
               else Inr (func, self\<lparr>listeners := d(event \<mapsto> [func])\<rparr>)
           | None \<Rightarrow> Inr (func, self\<lparr>listeners := d(event \<mapsto> [func])\<rparr>))
      | Inr _ \<Rightarrow> Inl (AttributeError ''get''))"

text \<open>
  \<^verbatim>\<open>listen(event)\<close> returns the closure \<^verbatim>\<open>decorator\<close>, which reads \<^verbatim>\<open>self\<close> when it is applied:
  the registrar takes the emitter's state at that moment.
\<close>

definition listen ::
  "string \<Rightarrow> ('a, 'v) listener \<Rightarrow> ('a, 'v) EventEmitter
     \<Rightarrow> exn + (('a, 'v) listener \<times> ('a, 'v) EventEmitter)" where
  "listen event = decorator event"

text \<open>
  A client that registers a sequence of listeners, each under its event name, one after the
  other; an exception of a registration ends it.
\<close>

fun listen_all ::
  "(string \<times> ('a, 'v) listener) list \<Rightarrow> ('a, 'v) EventEmitter \<Rightarrow> exn + ('a, 'v) EventEmitter" where
  "listen_all [] self = Inr self"
| "listen_all ((event, func) # regs) self =
     (case listen event func self of
        Inl e \<Rightarrow> Inl e
      | Inr (_, self') \<Rightarrow> listen_all regs self')"

text \<open>
  The registry as the specification words it: under an event name, the listeners that were
  registered under that name, in registration order, duplicates kept.
\<close>

definition registered_under ::
  "(string \<times> ('a, 'v) listener) list \<Rightarrow> string \<Rightarrow> ('a, 'v) listener list" where
  "registered_under regs event = map snd (filter (\<lambda>r. fst r = event) regs)"

subsection \<open>Emission\<close>

text \<open>
  The \<^verbatim>\<open>for\<close> loop of \<^verbatim>\<open>emit_async\<close> over a listener list: a coroutine function is called and
  awaited, any other callable is called; the value is dropped. There is no \<^verbatim>\<open>try\<close>, so an
  exception of a listener ends the loop and is the outcome.
\<close>

fun emit_async_loop ::
  "('a, 'v) listener list \<Rightarrow> 'a \<Rightarrow> ('a, 'v) effect list \<times> (exn + unit)" where
  "emit_async_loop [] args = ([], Inr ())"
| "emit_async_loop (listener # rest) args =
     (if iscoroutinefunction listener then
        (case body listener args of
           Inl e \<Rightarrow> ([Awaited listener args], Inl e)
         | Inr _ \<Rightarrow>
             (case emit_async_loop rest args of (tr, r) \<Rightarrow> (Awaited listener args # tr, r)))
      else
        (case body listener args of
           Inl e \<Rightarrow> ([Called listener args], Inl e)
         | Inr _ \<Rightarrow>
             (case emit_async_loop rest args of (tr, r) \<Rightarrow> (Called listener args # tr, r))))"

text \<open>The effect of running one listener in that loop, for stating what the loop does.\<close>

definition run_effect :: "'a \<Rightarrow> ('a, 'v) listener \<Rightarrow> ('a, 'v) effect" where
  "run_effect args l = (if iscoroutinefunction l then Awaited l args else Called l args)"

text \<open>
  \<^verbatim>\<open>emit_async\<close>: the iterable of the loop is \<^verbatim>\<open>self._listeners.get(event, [])\<close>, so the
  attribute \<^verbatim>\<open>_listeners\<close> is looked up first.
\<close>

definition emit_async ::
  "('a, 'v) EventEmitter \<Rightarrow> string \<Rightarrow> 'a \<Rightarrow> ('a, 'v) effect list \<times> (exn + unit)" where
  "emit_async self event args =
     (case getattr self ''_listeners'' of
        Inl e \<Rightarrow> ([], Inl e)
      | Inr (PDict d) \<Rightarrow>
          emit_async_loop (case d event of None \<Rightarrow> [] | Some ls \<Rightarrow> ls) args
      | Inr _ \<Rightarrow> ([], Inl (AttributeError ''get'')))"

text \<open>
  Modelled from the spec: the loop of \<^verbatim>\<open>emit_sync\<close> over the listeners of the event. The
  source holds the signature of \<^verbatim>\<open>emit_sync\<close> and its docstring and ends inside that
  docstring: no statement of the body is there. Section 4.3 of the specification: the
  listeners are taken in registration order; a synchronous listener is invoked directly and
  its result discarded; an asynchronous listener makes a strict emitter fail at once with
  \<^verbatim>\<open>StrictModeViolation\<close>, which names the event and that listener, without invoking it; a
  non-strict emitter skips it, not invoking it, emits one warning and goes on with the
  remaining listeners. Sections 6 and 7: an error that a listener raises propagates
  unmodified and aborts the remaining listeners. The first argument is the \<open>strict\<close> field.
\<close>

fun emit_sync_loop ::
  "bool \<Rightarrow> string \<Rightarrow> ('a, 'v) listener list \<Rightarrow> 'a \<Rightarrow> ('a, 'v) effect list \<times> (exn + unit)" where
  "emit_sync_loop is_strict event [] args = ([], Inr ())"
| "emit_sync_loop is_strict event (listener # rest) args =
     (if iscoroutinefunction listener then
        (if is_strict then ([], Inl (StrictModeViolation event (ident listener)))
         else
           (case emit_sync_loop is_strict event rest args of (tr, r) \<Rightarrow> (Warned listener # tr, r)))
      else
        (case body listener args of
           Inl e \<Rightarrow> ([Called listener args], Inl e)
         | Inr _ \<Rightarrow>
             (case emit_sync_loop is_strict event rest args of
                (tr, r) \<Rightarrow> (Called listener args # tr, r))))"

text \<open>
  Modelled from the spec: \<^verbatim>\<open>emit_sync\<close>, whose body is not in the source (see above). Section
  4.3 of the specification: it goes through every listener registered under the event
  name, in the registry \<^verbatim>\<open>listeners\<close>; an unknown event name is a no-op, not an error; it
  returns no value.
\<close>

definition emit_sync ::
  "('a, 'v) EventEmitter \<Rightarrow> string \<Rightarrow> 'a \<Rightarrow> ('a, 'v) effect list \<times> (exn + unit)" where
  "emit_sync self event args =
     emit_sync_loop (strict self) event
       (case listeners self event of None \<Rightarrow> [] | Some ls \<Rightarrow> ls) args"

section \<open>Properties\<close>

subsection \<open>Construction\<close>

text \<open>
  C10. Whatever boolean the constructor is given, and also when the argument is omitted,
  the \<open>strict\<close> field of the fresh emitter is \<open>True\<close>.
\<close>

theorem init_strict_is_True:
  "strict (EventEmitter_init (Some b) :: ('a, 'v) EventEmitter) = True
   \<and> strict (EventEmitter_init None :: ('a, 'v) EventEmitter) = True
   \<and> getattr (EventEmitter_init (Some b) :: ('a, 'v) EventEmitter) ''strict'' = Inr (PBool True)
   \<and> getattr (EventEmitter_init None :: ('a, 'v) EventEmitter) ''strict'' = Inr (PBool True)"
  by (simp add: EventEmitter_init_def getattr_def)

text \<open>
  C1. The constructor called with \<^verbatim>\<open>strict=False\<close> gives an emitter whose \<open>strict\<close> field is
  \<open>True\<close>, not the argument.
\<close>

theorem init_ignores_strict_False:
  "strict (EventEmitter_init (Some False) :: ('a, 'v) EventEmitter) \<noteq> False"
  by (simp add: EventEmitter_init_def)

subsection \<open>Registration\<close>

lemma decorator_eq:
  "decorator event func self =
     Inr (func, self\<lparr>listeners := (listeners self)
            (event \<mapsto> (case listeners self event of None \<Rightarrow> [] | Some lsrns \<Rightarrow> lsrns) @ [func])\<rparr>)"
  by (simp add: decorator_def getattr_def split: option.splits)

text \<open>
  C8. The registrar that \<open>listen\<close> returns for an event name, applied to a listener, returns
  that very listener.
\<close>

theorem listen_returns_listener:
  "map_sum id fst (listen event func self) = Inr func"
  by (simp add: listen_def decorator_eq)

lemma listen_all_append:
  "listen_all (regs @ regs') self =
     (case listen_all regs self of Inl e \<Rightarrow> Inl e | Inr self' \<Rightarrow> listen_all regs' self')"
  by (induction regs self rule: listen_all.induct) (simp_all add: listen_def decorator_eq)

lemma registered_under_snoc:
  "registered_under (regs @ [(event, func)]) E =
     (if E = event then registered_under regs E @ [func] else registered_under regs E)"
  by (auto simp add: registered_under_def)

lemma listen_all_init:
  "listen_all regs (EventEmitter_init b) =
     Inr \<lparr>strict = True,
          listeners = (\<lambda>E. if registered_under regs E = [] then None
                           else Some (registered_under regs E))\<rparr>"
proof (induction regs rule: rev_induct)
  case Nil
  show ?case by (simp add: EventEmitter_init_def registered_under_def)
next
  case (snoc r regs)
  obtain event func where r: "r = (event, func)" by (cases r)
  show ?case
    unfolding r listen_all_append snoc.IH
    by (auto simp add: listen_def decorator_eq registered_under_snoc fun_eq_iff)
qed

text \<open>
  C7. One registration: the registrar does not raise, whatever the registry holds under the
  event name; it returns the emitter whose list under that name is the former list (empty
  when there was none) with the listener appended at the end, every other entry and the
  \<open>strict\<close> field being as before. Any sequence of registrations on a fresh emitter: it
  does not raise, and the registry holds under each event name exactly the listeners
  registered under that name, in registration order, duplicates kept, and no entry for a
  name under which nothing was registered.
\<close>

theorem listen_registry:
  "listen event func self =
     Inr (func, self\<lparr>listeners := (listeners self)
            (event \<mapsto> (case listeners self event of None \<Rightarrow> [] | Some lsrns \<Rightarrow> lsrns) @ [func])\<rparr>)
   \<and> listen_all regs (EventEmitter_init b) =
     Inr \<lparr>strict = True,
          listeners = (\<lambda>E. if registered_under regs E = [] then None
                           else Some (registered_under regs E))\<rparr>"
  by (simp add: listen_def decorator_eq listen_all_init)

subsection \<open>The loop of asynchronous emission\<close>

text \<open>
  The loop taken alone, on a given listener list: when every listener returns, each one is
  run once, in list order; the first listener that raises ends the loop with its
  exception, after the listeners before it and before any listener behind it.
\<close>

lemma emit_async_loop_all_return:
  "list_all (\<lambda>l. isl (body l args) = False) ls
     \<Longrightarrow> emit_async_loop ls args = (map (run_effect args) ls, Inr ())"
  by (induction ls) (auto simp add: run_effect_def split: sum.splits)

lemma emit_async_loop_first_raise:
  "list_all (\<lambda>l. isl (body l args) = False) pre \<Longrightarrow> body l args = Inl e
     \<Longrightarrow> emit_async_loop (pre @ l # post) args = (map (run_effect args) (pre @ [l]), Inl e)"
  by (induction pre) (auto simp add: run_effect_def split: sum.splits)

subsection \<open>Emission on an emitter\<close>

text \<open>
  C2. Two listeners that return normally are registered under \<^verbatim>\<open>"x"\<close> on a fresh emitter;
  \<open>emit_async\<close> of \<^verbatim>\<open>"x"\<close> then raises \<^verbatim>\<open>AttributeError\<close> for the name \<^verbatim>\<open>_listeners\<close> and runs
  neither of them.
\<close>

theorem emit_async_registered_AttributeError:
  "listen_all [(''x'', Listener 1 False (\<lambda>_. Inr ())), (''x'', Listener 2 True (\<lambda>_. Inr ()))]
       (EventEmitter_init None)
     = Inr \<lparr>strict = True,
            listeners = [''x'' \<mapsto> [Listener 1 False (\<lambda>_. Inr ()), Listener 2 True (\<lambda>_. Inr ())]]\<rparr>
   \<and> emit_async
       \<lparr>strict = True,
        listeners = [''x'' \<mapsto> [Listener 1 False (\<lambda>_. Inr ()), Listener 2 True (\<lambda>_. Inr ())]]\<rparr>
       ''x'' ()
     = ([], Inl (AttributeError ''_listeners''))"
  by (simp add: listen_def decorator_eq EventEmitter_init_def emit_async_def getattr_def)

subsection \<open>Synchronous emission\<close>

lemma emit_sync_loop_strict_prefix:
  "list_all (\<lambda>p. \<not> iscoroutinefunction p \<and> \<not> isl (body p args)) pre
     \<Longrightarrow> iscoroutinefunction l
     \<Longrightarrow> emit_sync_loop True event (pre @ l # post) args
           = (map (\<lambda>p. Called p args) pre, Inl (StrictModeViolation event (ident l)))"
  by (induction pre) (auto split: sum.splits)

lemma emit_sync_loop_nonstrict:
  "list_all (\<lambda>l. iscoroutinefunction l \<or> \<not> isl (body l args)) ls
     \<Longrightarrow> emit_sync_loop False event ls args
           = (map (\<lambda>l. if iscoroutinefunction l then Warned l else Called l args) ls, Inr ())"
  by (induction ls) (auto split: sum.splits)

lemma emit_sync_loop_no_suspension:
  "filter is_suspension (fst (emit_sync_loop is_strict event ls args)) = []"
  by (induction ls) (auto split: sum.splits prod.splits)

lemma emit_async_loop_awaits_coroutines:
  "list_all awaits_coroutine (fst (emit_async_loop ls args))"
  by (induction ls) (auto split: sum.splits prod.splits)

text \<open>
  C3, as stated, fails: on a strict emitter a plain listener that raises and then a
  coroutine listener are registered under \<^verbatim>\<open>"x"\<close>; \<open>emit_sync\<close> of \<^verbatim>\<open>"x"\<close> fails with the error
  of the plain listener, not with \<^verbatim>\<open>StrictModeViolation\<close>.
\<close>

theorem emit_sync_strict_earlier_listener_raises:
  "listen_all [(''x'', Listener 1 False (Inl \<circ> Raised)), (''x'', Listener 2 True Inr)]
       (EventEmitter_init None :: (string, string) EventEmitter)
     = Inr \<lparr>strict = True,
            listeners = [''x'' \<mapsto> [Listener 1 False (Inl \<circ> Raised), Listener 2 True Inr]]\<rparr>
   \<and> emit_sync
       (\<lparr>strict = True,
         listeners = [''x'' \<mapsto> [Listener 1 False (Inl \<circ> Raised), Listener 2 True Inr]]\<rparr>
          :: (string, string) EventEmitter)
       ''x'' ''boom''
     = ([Called (Listener 1 False (Inl \<circ> Raised)) ''boom''], Inl (Raised ''boom''))
   \<and> Inl (Raised ''boom'') \<noteq> (Inl (StrictModeViolation ''x'' 2) :: exn + unit)"
  by (simp add: listen_def decorator_eq EventEmitter_init_def emit_sync_def)

text \<open>
  C3, amended. On a strict emitter, let the listener list of the event hold an asynchronous
  listener, and let every listener registered before the first such one be synchronous
  (which is what first means) and return normally. Then \<open>emit_sync\<close> invokes exactly those
  earlier listeners, in order, and fails with \<^verbatim>\<open>StrictModeViolation\<close> naming the event and
  that first asynchronous listener, which it does not invoke; no later listener is invoked
  either.
\<close>

theorem emit_sync_strict_violation:
  assumes "strict self"
    and "listeners self event = Some (pre @ l # post)"
    and "list_all (\<lambda>p. \<not> iscoroutinefunction p \<and> \<not> isl (body p args)) pre"
    and "iscoroutinefunction l"
  shows "emit_sync self event args
           = (map (\<lambda>p. Called p args) pre, Inl (StrictModeViolation event (ident l)))"
  using assms by (simp add: emit_sync_def emit_sync_loop_strict_prefix)

theorem emit_sync_strict_violation_witness:
  "strict (\<lparr>strict = True,
            listeners = [''x'' \<mapsto> [Listener 1 False Inr] @ Listener 2 True Inr
                                      # [Listener 3 False Inr]]\<rparr>
             :: (string, string) EventEmitter)
   \<and> emit_sync
       (\<lparr>strict = True,
         listeners = [''x'' \<mapsto> [Listener 1 False Inr] @ Listener 2 True Inr
                                   # [Listener 3 False Inr]]\<rparr>
          :: (string, string) EventEmitter)
       ''x'' ''hi''
     = ([Called (Listener 1 False Inr) ''hi''], Inl (StrictModeViolation ''x'' 2))"
  using emit_sync_strict_violation
    [of "\<lparr>strict = True,
          listeners = [''x'' \<mapsto> [Listener 1 False Inr] @ Listener 2 True Inr
                                    # [Listener 3 False Inr]]\<rparr>"
        "''x''" "[Listener 1 False Inr]" "Listener 2 True Inr" "[Listener 3 False Inr]" "''hi''"]
  by simp

text \<open>
  C4, as stated, fails: on a non-strict emitter a plain listener that raises and then a
  plain listener that returns are registered under \<^verbatim>\<open>"x"\<close>; \<open>emit_sync\<close> of \<^verbatim>\<open>"x"\<close> does not
  return normally, and it does not invoke the second listener.
\<close>

theorem emit_sync_nonstrict_listener_raises:
  "emit_sync
       (\<lparr>strict = False,
         listeners = [''x'' \<mapsto> [Listener 1 False (Inl \<circ> Raised), Listener 2 False Inr]]\<rparr>
          :: (string, string) EventEmitter)
       ''x'' ''boom''
     = ([Called (Listener 1 False (Inl \<circ> Raised)) ''boom''], Inl (Raised ''boom''))
   \<and> Inl (Raised ''boom'') \<noteq> (Inr () :: exn + unit)"
  by (simp add: emit_sync_def)

text \<open>
  C4, amended. On a non-strict emitter, for every event whose synchronous listeners all
  return normally, \<open>emit_sync\<close> goes through the listeners of the event in registration
  order, invokes each synchronous one, skips each asynchronous one with exactly one
  warning for it and without invoking it, goes on after each skip, and returns normally.
  An event without listeners is the case of the empty list.
\<close>

theorem emit_sync_nonstrict_skips:
  assumes "\<not> strict self"
    and "list_all (\<lambda>l. iscoroutinefunction l \<or> \<not> isl (body l args))
           (case listeners self event of None \<Rightarrow> [] | Some ls \<Rightarrow> ls)"
  shows "emit_sync self event args
           = (map (\<lambda>l. if iscoroutinefunction l then Warned l else Called l args)
                (case listeners self event of None \<Rightarrow> [] | Some ls \<Rightarrow> ls),
              Inr ())"
  using assms by (simp add: emit_sync_def emit_sync_loop_nonstrict)

theorem emit_sync_nonstrict_skips_witness:
  "\<not> strict (\<lparr>strict = False,
              listeners = [''x'' \<mapsto> [Listener 1 False Inr, Listener 2 True Inr,
                                        Listener 3 False Inr]]\<rparr>
               :: (string, string) EventEmitter)
   \<and> emit_sync
       (\<lparr>strict = False,
         listeners = [''x'' \<mapsto> [Listener 1 False Inr, Listener 2 True Inr,
                                   Listener 3 False Inr]]\<rparr>
          :: (string, string) EventEmitter)
       ''x'' ''hi''
     = ([Called (Listener 1 False Inr) ''hi'', Warned (Listener 2 True Inr),
         Called (Listener 3 False Inr) ''hi''], Inr ())"
  using emit_sync_nonstrict_skips
    [of "\<lparr>strict = False,
          listeners = [''x'' \<mapsto> [Listener 1 False Inr, Listener 2 True Inr,
                                    Listener 3 False Inr]]\<rparr>"
        "''hi''" "''x''"]
  by simp

text \<open>
  C5. On a fresh emitter, which has no listener under \<^verbatim>\<open>"x"\<close>, \<open>emit_async\<close> of \<^verbatim>\<open>"x"\<close> raises
  \<^verbatim>\<open>AttributeError\<close> for the name \<^verbatim>\<open>_listeners\<close>.
\<close>

theorem emit_async_no_listeners_AttributeError:
  "listeners (EventEmitter_init None :: (unit, unit) EventEmitter) ''x'' = None
   \<and> emit_async (EventEmitter_init None :: (unit, unit) EventEmitter) ''x'' ()
     = ([], Inl (AttributeError ''_listeners''))"
  by (simp add: EventEmitter_init_def emit_async_def getattr_def)

subsection \<open>Suspension\<close>

text \<open>
  C9. No effect of \<open>emit_sync\<close> suspends the caller: its trace holds no await, for every
  emitter, event and argument bundle. Every await of the loop of \<open>emit_async\<close>, and so of
  \<open>emit_async\<close>, is the await of a coroutine listener at its invocation.
\<close>

theorem emission_suspension_points:
  "filter is_suspension (fst (emit_sync self event args)) = []
   \<and> list_all awaits_coroutine (fst (emit_async_loop ls args))
   \<and> list_all awaits_coroutine (fst (emit_async self event args))"
  by (simp add: emit_sync_def emit_sync_loop_no_suspension emit_async_loop_awaits_coroutines
      emit_async_def getattr_def)

theorem emission_suspension_points_witness:
  "filter is_suspension
       (fst (emit_sync
          (\<lparr>strict = False,
            listeners = [''x'' \<mapsto> [Listener 1 False Inr, Listener 2 True Inr]]\<rparr>
             :: (string, string) EventEmitter)
          ''x'' ''hi'')) = []
   \<and> fst (emit_async_loop [Listener 1 False Inr, Listener 2 True Inr :: (string, string) listener]
        ''hi'')
     = [Called (Listener 1 False Inr) ''hi'', Awaited (Listener 2 True Inr) ''hi'']
   \<and> list_all awaits_coroutine
       (fst (emit_async_loop [Listener 1 False Inr, Listener 2 True Inr :: (string, string) listener]
          ''hi''))"
  using emission_suspension_points
    [of "\<lparr>strict = False,
          listeners = [''x'' \<mapsto> [Listener 1 False Inr, Listener 2 True Inr]]\<rparr>
           :: (string, string) EventEmitter"
        "''x''" "''hi''"
        "[Listener 1 False Inr, Listener 2 True Inr :: (string, string) listener]"]
  by simp

end
